theory Spec2Isabelle
  imports Main
begin

section \<open>The edge failover router of \<open>api/index.js\<close>\<close>

text \<open>
  The repository is one edge function, \<open>handler\<close>, that forwards an inbound HTTP request
  to one of two origins. The platform objects it touches (\<open>URL\<close>, \<open>Headers\<close>,
  \<open>Request\<close>, \<open>Response\<close>, \<open>fetch\<close>, the key-value client \<open>kv\<close>) are not part of
  the repository; each is modelled by the part of its interface that the handler uses, and
  what the outside world answers (origin responses, latencies, store contents, store
  failures) is a field of the environment record \<open>env\<close>. Every \<open>throw\<close>, rejected
  promise and early \<open>return\<close> of the handler is a branch below; the \<open>console.error\<close>
  lines are left out.
\<close>

subsection \<open>Headers\<close>

text \<open>
  A \<open>Headers\<close> object is a list of name/value pairs whose names are compared without
  regard to ASCII case. \<open>delete\<close> removes every pair of the name; \<open>set\<close> overwrites the
  first pair of the name and removes the others, or appends a pair when there is none;
  \<open>get\<close> joins the values of the name with a comma and a space, and is \<open>null\<close> when
  there is none.
\<close>

type_synonym headers = "(string \<times> string) list"

definition ascii_lower :: "char \<Rightarrow> char" where
  "ascii_lower c =
     (case map_of (zip ''ABCDEFGHIJKLMNOPQRSTUVWXYZ'' ''abcdefghijklmnopqrstuvwxyz'') c of
        Some l \<Rightarrow> l
      | None \<Rightarrow> c)"

definition lower :: "string \<Rightarrow> string" where
  "lower s = map ascii_lower s"

definition same_name :: "string \<Rightarrow> string \<Rightarrow> bool" where
  "same_name a b = (lower a = lower b)"

definition hdelete :: "string \<Rightarrow> headers \<Rightarrow> headers" where
  "hdelete n hs = filter (\<lambda>kv. \<not> same_name (fst kv) n) hs"

fun hset :: "string \<Rightarrow> string \<Rightarrow> headers \<Rightarrow> headers" where
  "hset n v [] = [(lower n, v)]"
| "hset n v (kv # hs) =
     (if same_name (fst kv) n then (fst kv, v) # hdelete n hs else kv # hset n v hs)"

definition hvalues :: "string \<Rightarrow> headers \<Rightarrow> string list" where
  "hvalues n hs = map snd (filter (\<lambda>kv. same_name (fst kv) n) hs)"

fun join_values :: "string list \<Rightarrow> string" where
  "join_values [] = []"
| "join_values [v] = v"
| "join_values (v # w # vs) = v @ '', '' @ join_values (w # vs)"

definition hget :: "string \<Rightarrow> headers \<Rightarrow> string option" where
  "hget n hs = (case hvalues n hs of [] \<Rightarrow> None | vs \<Rightarrow> Some (join_values vs))"

subsection \<open>Requests and responses\<close>

text \<open>
  The inbound \<open>request.url\<close> is kept as the three components of \<open>new URL(request.url)\<close>
  that the handler reads. A request body is a stream that can be read once; reading it
  either yields its bytes or fails.
\<close>

record url =
  host :: string
  pathname :: string
  search :: string

datatype body_stream = Stream string | BrokenStream

record request =
  req_method :: string
  req_url :: url
  headers :: headers
  body :: "body_stream option"

record response =
  status :: nat
  resp_headers :: headers
  resp_body :: string

text \<open>\<open>Response.ok\<close>: the status is in the range 200 to 299.\<close>

definition ok :: "response \<Rightarrow> bool" where
  "ok r = (200 \<le> status r \<and> status r \<le> 299)"

text \<open>
  \<open>new Response(text, { status })\<close>: a text body gets the platform's default content type.
\<close>

definition text_response :: "string \<Rightarrow> nat \<Rightarrow> response" where
  "text_response txt st =
     \<lparr>status = st,
      resp_headers = [(''content-type'', ''text/plain;charset=UTF-8'')],
      resp_body = txt\<rparr>"

subsection \<open>Resolving the target URL\<close>

text \<open>
  Line 31 is \<open>new URL(url.pathname + url.search, targetDomain)\<close>: the platform parses
  the base and resolves the first argument against it, and throws a \<open>TypeError\<close> when
  either step fails. The part of the URL Standard's parser that this call can reach is
  written out here for an \<open>http\<close> or \<open>https\<close> base.

  A parsed URL is kept as its scheme, its authority (host with port) and the rest (path
  with query). Host validation, credentials, percent-encoding and dot segments are not
  modelled: authority and path are the substrings as written. A base with no scheme makes
  the constructor throw; a base with any scheme other than \<open>http\<close> and \<open>https\<close> is not
  an origin the handler can forward to and is rejected here in the same way.
\<close>

record target_url =
  scheme :: string
  authority :: string
  path_query :: string

definition is_slash :: "char \<Rightarrow> bool" where
  "is_slash c = (c = CHR ''/'' \<or> c = CHR 0x5C)"

definition in_authority :: "char \<Rightarrow> bool" where
  "in_authority c = (\<not> is_slash c \<and> c \<noteq> CHR ''?'' \<and> c \<noteq> CHR ''#'')"

text \<open>
  The parser's states \<open>special authority ignore slashes\<close> and \<open>authority\<close>: any run of
  slashes and backslashes is skipped, the authority runs up to the next slash, backslash,
  \<open>?\<close> or \<open>#\<close>, and an empty host is a failure. The path of such a URL is never empty.
\<close>

definition parse_authority :: "string \<Rightarrow> string + (string \<times> string)" where
  "parse_authority s =
     (let t = dropWhile is_slash s;
          auth = takeWhile in_authority t;
          rest = dropWhile in_authority t
      in if auth = [] then Inl ''Invalid URL''
         else Inr (auth, case rest of
                           [] \<Rightarrow> ''/''
                         | c # cs \<Rightarrow> if is_slash c then rest else CHR ''/'' # rest))"

definition parse_base :: "string \<Rightarrow> string + target_url" where
  "parse_base b =
     (let sch = lower (takeWhile (\<lambda>c. c \<noteq> CHR '':'') b);
          rest = dropWhile (\<lambda>c. c \<noteq> CHR '':'') b
      in if rest = [] then Inl ''Invalid URL''
         else if sch = ''http'' \<or> sch = ''https''
         then (case parse_authority (tl rest) of
                 Inl err \<Rightarrow> Inl err
               | Inr ap \<Rightarrow> Inr \<lparr>scheme = sch, authority = fst ap, path_query = snd ap\<rparr>)
         else Inl ''Invalid URL'')"

text \<open>
  The path of the base without its last segment, for a relative reference that does not
  begin with a slash. The handler never passes one: the \<open>pathname\<close> of an \<open>http\<close> or
  \<open>https\<close> request URL begins with a slash.
\<close>

definition merge_path :: "string \<Rightarrow> string \<Rightarrow> string" where
  "merge_path base_path r =
     (let p = takeWhile (\<lambda>c. c \<noteq> CHR ''?'' \<and> c \<noteq> CHR ''#'') base_path
      in case r of
           [] \<Rightarrow> base_path
         | c # cs \<Rightarrow>
             if c = CHR ''?'' then p @ r
             else if c = CHR ''#'' then takeWhile (\<lambda>c. c \<noteq> CHR ''#'') base_path @ r
             else rev (dropWhile (\<lambda>c. c \<noteq> CHR ''/'') (rev p)) @ r)"

text \<open>
  The parser's states \<open>relative\<close> and \<open>relative slash\<close> for a base of a special scheme.
  A reference that begins with two slashes (or backslashes) names its own authority and
  keeps only the scheme of the base. A reference that begins with one slash keeps the
  scheme and the authority of the base and replaces its whole path.
\<close>

fun resolve :: "target_url \<Rightarrow> string \<Rightarrow> string + target_url" where
  "resolve b (c # d # r) =
     (if is_slash c \<and> is_slash d
      then (case parse_authority r of
              Inl err \<Rightarrow> Inl err
            | Inr ap \<Rightarrow> Inr \<lparr>scheme = scheme b, authority = fst ap, path_query = snd ap\<rparr>)
      else if is_slash c then Inr (b\<lparr>path_query := c # d # r\<rparr>)
      else Inr (b\<lparr>path_query := merge_path (path_query b) (c # d # r)\<rparr>))"
| "resolve b [c] =
     (if is_slash c then Inr (b\<lparr>path_query := [c]\<rparr>)
      else Inr (b\<lparr>path_query := merge_path (path_query b) [c]\<rparr>))"
| "resolve b [] = Inr b"

definition new_URL :: "string \<Rightarrow> string \<Rightarrow> string + target_url" where
  "new_URL r b = (case parse_base b of Inl err \<Rightarrow> Inl err | Inr pb \<Rightarrow> resolve pb r)"

text \<open>The serialized URL.\<close>

definition href :: "target_url \<Rightarrow> string" where
  "href t = scheme t @ ''://'' @ authority t @ path_query t"

subsection \<open>Outbound requests\<close>

text \<open>The body of an outbound request is the buffered copy or the inbound stream itself.\<close>

datatype out_body = FromBuffer string | FromStream body_stream

datatype redirect_mode = Follow | Error | Manual

record proxy_request =
  p_url :: target_url
  p_method :: string
  p_headers :: headers
  p_body :: "out_body option"
  p_redirect :: redirect_mode

subsection \<open>Domain configuration\<close>

text \<open>
  \<open>normalizeDomain\<close>, lines 10 to 13. \<open>process.env.X\<close> is \<open>undefined\<close> (\<open>None\<close>) or a
  string; \<open>!domain\<close> holds for \<open>undefined\<close> and for the empty string;
  \<open>domain.slice(0, -1)\<close> drops the last character.
\<close>

definition normalizeDomain :: "string option \<Rightarrow> string" where
  "normalizeDomain domain =
     (case domain of
        None \<Rightarrow> []
      | Some d \<Rightarrow>
          if d = [] then []
          else if last d = CHR ''/'' then butlast d else d)"

subsection \<open>The request translator\<close>

text \<open>
  \<open>createProxyRequest\<close>, lines 29 to 52. It closes over \<open>url\<close>, the parsed inbound
  URL, which is its first argument here. It throws when line 31 does. \<open>bodyOverride\<close>
  is \<open>null\<close> or an \<open>ArrayBuffer\<close>; an \<open>ArrayBuffer\<close> is an object, so
  \<open>bodyOverride || originalReq.body\<close> takes the buffer whenever there is one, also an
  empty one.
\<close>

definition createProxyRequest ::
  "url \<Rightarrow> string \<Rightarrow> request \<Rightarrow> string option \<Rightarrow> string + proxy_request" where
  "createProxyRequest u targetDomain originalReq bodyOverride =
     (case new_URL (pathname u @ search u) targetDomain of
        Inl err \<Rightarrow> Inl err
      | Inr targetUrl \<Rightarrow>
          (let newHeaders = hset ''x-forwarded-host'' (host u)
                              (hdelete ''host'' (headers originalReq));
               hasBody = (req_method originalReq \<noteq> ''GET''
                          \<and> req_method originalReq \<noteq> ''HEAD'');
               b = (if hasBody
                    then (case bodyOverride of
                            Some buf \<Rightarrow> Some (FromBuffer buf)
                          | None \<Rightarrow> map_option FromStream (body originalReq))
                    else None)
           in Inr \<lparr>p_url = targetUrl, p_method = req_method originalReq,
                   p_headers = newHeaders, p_body = b, p_redirect = Manual\<rparr>))"

subsection \<open>The environment\<close>

text \<open>
  What the handler cannot decide itself. \<open>origin\<close> is what \<open>fetch\<close> settles with for an
  outbound request: a response, or a transport error. \<open>latency\<close> is the time in
  milliseconds after which it settles. The health store is a map from keys to a value
  with its time to live in seconds. A call of the store client can fail in two ways: it
  returns a promise that rejects (\<open>kv_get_fails\<close>, \<open>kv_set_fails\<close>), or the call itself
  throws before there is a promise (\<open>kv_set_throws\<close>, with the error's message). For
  \<open>kv.get\<close> the two are one case, since line 112 awaits the call inside its own
  \<open>try\<close>.
\<close>

datatype fetch_result = Responded response | Failed string

record env =
  DOMAIN_MAIN :: "string option"
  DOMAIN_BACKUP :: "string option"
  origin :: "proxy_request \<Rightarrow> fetch_result"
  latency :: "proxy_request \<Rightarrow> nat"
  kv_store :: "string \<rightharpoonup> (string \<times> nat)"
  kv_get_fails :: bool
  kv_set_fails :: bool
  kv_set_throws :: "string option"

text \<open>
  What a run of the handler does: the value its promise settles with, the calls it made
  to the outside in order, and the health store once the detached writes have settled.
  A fetch is recorded with its abort timeout in milliseconds, if it has one.
\<close>

datatype outcome = Returned response | Rejected string

datatype effect =
    Fetch proxy_request "nat option"
  | KvGet string
  | KvSet string string nat

record run =
  result :: outcome
  trace :: "effect list"
  store_after :: "string \<rightharpoonup> (string \<times> nat)"

text \<open>The URLs that the fetches of a trace go to, in order.\<close>

fun fetched :: "effect list \<Rightarrow> string list" where
  "fetched [] = []"
| "fetched (Fetch pr t # es) = href (p_url pr) # fetched es"
| "fetched (KvGet k # es) = fetched es"
| "fetched (KvSet k v ex # es) = fetched es"

text \<open>
  \<open>fetch(req)\<close>, and \<open>fetch(req, { signal })\<close> with the abort timer of line 74: a
  fetch that has not settled when the timer fires after \<open>ms\<close> milliseconds is aborted
  and rejects. A fetch that would settle at the very millisecond of the timer is taken
  as aborted.
\<close>

definition fetch :: "env \<Rightarrow> proxy_request \<Rightarrow> fetch_result" where
  "fetch e pr = origin e pr"

definition fetch_with_timeout :: "env \<Rightarrow> proxy_request \<Rightarrow> nat \<Rightarrow> fetch_result" where
  "fetch_with_timeout e pr ms =
     (if latency e pr < ms then origin e pr else Failed ''The operation was aborted'')"

text \<open>A handler that returns the promise of a fetch settles as that fetch does.\<close>

definition settle :: "fetch_result \<Rightarrow> outcome" where
  "settle fr = (case fr of Responded r \<Rightarrow> Returned r | Failed msg \<Rightarrow> Rejected msg)"

text \<open>
  \<open>kv.get(key)\<close>: the stored value, \<open>null\<close> when the key is absent, or a failure.
  \<open>kv.set(key, value, { ex })\<close> handed to \<open>context.waitUntil\<close>: the write happens
  detached from the response, and when its promise rejects the store stays as it was.
\<close>

definition kv_get :: "env \<Rightarrow> string \<Rightarrow> string + string option" where
  "kv_get e k =
     (if kv_get_fails e then Inl ''KV read failed'' else Inr (map_option fst (kv_store e k)))"

definition kv_set ::
  "env \<Rightarrow> string \<Rightarrow> string \<Rightarrow> nat \<Rightarrow> (string \<rightharpoonup> (string \<times> nat))" where
  "kv_set e k v ex = (if kv_set_fails e then kv_store e else (kv_store e)(k \<mapsto> (v, ex)))"

text \<open>\<open>request.arrayBuffer()\<close>: the bytes of the body, or a failure.\<close>

definition arrayBuffer :: "request \<Rightarrow> string + string" where
  "arrayBuffer rq =
     (case body rq of
        None \<Rightarrow> Inr []
      | Some (Stream bytes) \<Rightarrow> Inr bytes
      | Some BrokenStream \<Rightarrow> Inl ''body stream errored'')"

subsection \<open>The handler\<close>

definition config_error :: response where
  "config_error =
     text_response ''Configuration Error: Missing DOMAIN_MAIN or DOMAIN_BACKUP'' 500"

definition bad_request :: response where
  "bad_request = text_response ''Bad Request: Unable to read body'' 400"

text \<open>
  Lines 93 to 103, the \<open>catch\<close> block of the probe. \<open>called\<close> is what the \<open>try\<close> block
  had called when it threw. Nothing guards the block itself: when \<open>kv.set\<close> throws at
  line 97, or \<open>createProxyRequest\<close> at line 101, the handler's promise rejects. A
  \<open>kv.set\<close> that throws here has thrown or would have thrown at line 84 as well, so no
  write has reached the store.
\<close>

definition failover ::
  "env \<Rightarrow> request \<Rightarrow> string \<Rightarrow> effect list \<Rightarrow> string option \<Rightarrow> run" where
  "failover e rq domainBackup called bodyBuffer =
     (case kv_set_throws e of
        Some err \<Rightarrow>
          \<lparr>result = Rejected err,
           trace = called @ [KvSet ''primary_status'' ''down'' 600],
           store_after = kv_store e\<rparr>
      | None \<Rightarrow>
          (case createProxyRequest (req_url rq) domainBackup rq bodyBuffer of
             Inl err \<Rightarrow>
               \<lparr>result = Rejected err,
                trace = called @ [KvSet ''primary_status'' ''down'' 600],
                store_after = kv_set e ''primary_status'' ''down'' 600\<rparr>
           | Inr proxyReqBackup \<Rightarrow>
               \<lparr>result = settle (fetch e proxyReqBackup),
                trace = called @ [KvSet ''primary_status'' ''down'' 600,
                                Fetch proxyReqBackup None],
                store_after = kv_set e ''primary_status'' ''down'' 600\<rparr>))"

text \<open>
  Lines 58 to 69: \<open>bodyBuffer\<close> stays \<open>null\<close> when the request has no body; otherwise
  the body is read into memory, and a failed read ends the request.
\<close>

definition readBody :: "request \<Rightarrow> string + string option" where
  "readBody rq =
     (if body rq \<noteq> None then map_sum id Some (arrayBuffer rq) else Inr None)"

text \<open>
  Lines 57 to 104: the branch of the path \<open>/api/notice\<close>. The \<open>try\<close> block spans
  lines 72 to 91, so it catches a throw of \<open>createProxyRequest\<close> (line 76), a failed or
  aborted fetch (line 78), the \<open>throw\<close> of line 90, and also a throw of \<open>kv.set\<close> at
  line 84, after the primary has answered with a 2xx.
\<close>

definition probe :: "env \<Rightarrow> request \<Rightarrow> string \<Rightarrow> string \<Rightarrow> run" where
  "probe e rq domainMain domainBackup =
     (case readBody rq of
        Inl err \<Rightarrow> \<lparr>result = Returned bad_request, trace = [], store_after = kv_store e\<rparr>
      | Inr bodyBuffer \<Rightarrow>
          (case createProxyRequest (req_url rq) domainMain rq bodyBuffer of
             Inl err \<Rightarrow> failover e rq domainBackup [] bodyBuffer
           | Inr proxyReqMain \<Rightarrow>
               (case fetch_with_timeout e proxyReqMain 10000 of
                  Responded responseMain \<Rightarrow>
                    if ok responseMain
                    then (case kv_set_throws e of
                            Some err \<Rightarrow>
                              failover e rq domainBackup
                                [Fetch proxyReqMain (Some 10000),
                                 KvSet ''primary_status'' ''up'' 600] bodyBuffer
                          | None \<Rightarrow>
                              \<lparr>result = Returned responseMain,
                               trace = [Fetch proxyReqMain (Some 10000),
                                        KvSet ''primary_status'' ''up'' 600],
                               store_after = kv_set e ''primary_status'' ''up'' 600\<rparr>)
                    else failover e rq domainBackup
                           [Fetch proxyReqMain (Some 10000)] bodyBuffer
                | Failed msg \<Rightarrow>
                    failover e rq domainBackup [Fetch proxyReqMain (Some 10000)] bodyBuffer)))"

text \<open>
  Lines 110 to 132: every other path. A throw of \<open>createProxyRequest\<close> at line 126 or
  130 is not caught.
\<close>

definition routed :: "env \<Rightarrow> request \<Rightarrow> string \<Rightarrow> string \<Rightarrow> run" where
  "routed e rq domainMain domainBackup =
     (let isUp = (case kv_get e ''primary_status'' of
                    Inr st \<Rightarrow> st \<noteq> Some ''down''
                  | Inl err \<Rightarrow> True)
      in case createProxyRequest (req_url rq)
                (if isUp then domainMain else domainBackup) rq None of
           Inl err \<Rightarrow>
             \<lparr>result = Rejected err, trace = [KvGet ''primary_status''],
              store_after = kv_store e\<rparr>
         | Inr proxyReq \<Rightarrow>
             \<lparr>result = settle (fetch e proxyReq),
              trace = [KvGet ''primary_status'', Fetch proxyReq None],
              store_after = kv_store e\<rparr>)"

definition handler :: "env \<Rightarrow> request \<Rightarrow> run" where
  "handler e rq =
     (let domainMain = normalizeDomain (DOMAIN_MAIN e);
          domainBackup = normalizeDomain (DOMAIN_BACKUP e)
      in if domainMain = [] \<or> domainBackup = []
         then \<lparr>result = Returned config_error, trace = [], store_after = kv_store e\<rparr>
         else if pathname (req_url rq) = ''/api/notice''
         then probe e rq domainMain domainBackup
         else routed e rq domainMain domainBackup)"

subsection \<open>Concrete requests and environments\<close>

text \<open>
  The inputs at which the theorems below are instantiated: a \<open>POST\<close> to the probe path
  with a body, a \<open>GET\<close> to another path, a \<open>GET\<close> whose path begins with two slashes,
  and an environment with the primary origin at \<open>a.example\<close> and the backup at
  \<open>b.example\<close>; any other host answers with \<open>resp_elsewhere\<close>.
\<close>

definition ex_headers :: headers where
  "ex_headers = [(''Host'', ''proxy.example''), (''accept'', ''*/*'')]"

definition ex_notice :: request where
  "ex_notice =
     \<lparr>req_method = ''POST'',
      req_url = \<lparr>host = ''proxy.example'', pathname = ''/api/notice'', search = []\<rparr>,
      headers = ex_headers,
      body = Some (Stream ''x=1'')\<rparr>"

definition ex_widgets :: request where
  "ex_widgets =
     \<lparr>req_method = ''GET'',
      req_url = \<lparr>host = ''proxy.example'', pathname = ''/widgets'', search = ''?id=9''\<rparr>,
      headers = ex_headers,
      body = None\<rparr>"

definition ex_two_slashes :: request where
  "ex_two_slashes =
     \<lparr>req_method = ''GET'',
      req_url = \<lparr>host = ''proxy.example'', pathname = ''//evil.example/x'', search = []\<rparr>,
      headers = ex_headers,
      body = None\<rparr>"

definition resp_a :: response where
  "resp_a = \<lparr>status = 200, resp_headers = [(''server'', ''a'')], resp_body = ''from a''\<rparr>"

definition resp_b :: response where
  "resp_b = \<lparr>status = 200, resp_headers = [(''server'', ''b'')], resp_body = ''from b''\<rparr>"

definition resp_elsewhere :: response where
  "resp_elsewhere =
     \<lparr>status = 200, resp_headers = [(''server'', ''evil'')], resp_body = ''from elsewhere''\<rparr>"

definition resp_bad_gateway :: response where
  "resp_bad_gateway = \<lparr>status = 502, resp_headers = [(''server'', ''a'')], resp_body = []\<rparr>"

definition resp_redirect :: response where
  "resp_redirect =
     \<lparr>status = 302,
      resp_headers = [(''server'', ''a''), (''location'', ''https://a.example/login'')],
      resp_body = []\<rparr>"

definition answers :: "response \<Rightarrow> response \<Rightarrow> proxy_request \<Rightarrow> fetch_result" where
  "answers ra rb pr =
     (if authority (p_url pr) = ''a.example'' then Responded ra
      else if authority (p_url pr) = ''b.example'' then Responded rb
      else Responded resp_elsewhere)"

definition ex_env :: env where
  "ex_env =
     \<lparr>DOMAIN_MAIN = Some ''https://a.example/'',
      DOMAIN_BACKUP = Some ''https://b.example'',
      origin = answers resp_a resp_b,
      latency = (\<lambda>pr. 120),
      kv_store = Map.empty,
      kv_get_fails = False,
      kv_set_fails = False,
      kv_set_throws = None\<rparr>"

text \<open>The requests that \<open>createProxyRequest\<close> builds from \<open>ex_notice\<close> for the two origins.\<close>

definition ex_forwarded_headers :: headers where
  "ex_forwarded_headers = [(''accept'', ''*/*''), (''x-forwarded-host'', ''proxy.example'')]"

definition ex_probe_request :: proxy_request where
  "ex_probe_request =
     \<lparr>p_url = \<lparr>scheme = ''https'', authority = ''a.example'', path_query = ''/api/notice''\<rparr>,
      p_method = ''POST'',
      p_headers = ex_forwarded_headers,
      p_body = Some (FromBuffer ''x=1''),
      p_redirect = Manual\<rparr>"

definition ex_backup_request :: proxy_request where
  "ex_backup_request =
     \<lparr>p_url = \<lparr>scheme = ''https'', authority = ''b.example'', path_query = ''/api/notice''\<rparr>,
      p_method = ''POST'',
      p_headers = ex_forwarded_headers,
      p_body = Some (FromBuffer ''x=1''),
      p_redirect = Manual\<rparr>"


section \<open>Properties\<close>

lemmas url_defs = new_URL_def parse_base_def parse_authority_def is_slash_def in_authority_def
  lower_def ascii_lower_def merge_path_def href_def


lemmas ex_defs = ex_env_def ex_notice_def ex_widgets_def ex_two_slashes_def ex_headers_def
  answers_def resp_a_def resp_b_def resp_elsewhere_def resp_bad_gateway_def resp_redirect_def
  ex_forwarded_headers_def ex_probe_request_def ex_backup_request_def
  normalizeDomain_def readBody_def arrayBuffer_def createProxyRequest_def
  hdelete_def same_name_def

subsection \<open>Header lists\<close>

text \<open>
  What \<open>get\<close> sees after \<open>delete\<close> and after \<open>set\<close>: the values of the name itself
  are gone, respectively the one new value, and every other name keeps its values.
\<close>

lemma ascii_lower_idem: "ascii_lower (ascii_lower c) = ascii_lower c"
  by (auto simp: ascii_lower_def split: option.splits if_splits)

lemma lower_idem: "lower (lower s) = lower s"
  by (simp add: lower_def ascii_lower_idem)

lemma hvalues_hdelete:
  "hvalues n (hdelete m hs) = (if same_name n m then [] else hvalues n hs)"
  by (induction hs) (auto simp: hvalues_def hdelete_def same_name_def)

lemma hvalues_hset:
  "hvalues n (hset m v hs) = (if same_name n m then [v] else hvalues n hs)"
proof (induction hs)
  case Nil
  show ?case by (auto simp: hvalues_def same_name_def lower_idem)
next
  case (Cons kv hs)
  show ?case
  proof (cases "same_name (fst kv) m")
    case True
    then show ?thesis
      using hvalues_hdelete[of n m hs]
      by (auto simp: hvalues_def same_name_def)
  next
    case False
    then show ?thesis using Cons
      by (auto simp: hvalues_def same_name_def)
  qed
qed

lemma lower_literals:
  "lower ''Host'' = ''host''" "lower ''host'' = ''host''"
  "lower ''X-Forwarded-Host'' = ''x-forwarded-host''"
  "lower ''x-forwarded-host'' = ''x-forwarded-host''"
  by (simp_all add: lower_def ascii_lower_def)

subsection \<open>The concrete inputs\<close>

lemma ex_main: "normalizeDomain (DOMAIN_MAIN ex_env) = ''https://a.example''"
  by (simp add: ex_env_def normalizeDomain_def)

lemma ex_backup: "normalizeDomain (DOMAIN_BACKUP ex_env) = ''https://b.example''"
  by (simp add: ex_env_def normalizeDomain_def)

lemma ex_probe_built:
  "createProxyRequest (req_url ex_notice) ''https://a.example'' ex_notice (Some ''x=1'')
     = Inr ex_probe_request"
  by (simp add: ex_defs url_defs)

lemma ex_backup_built:
  "createProxyRequest (req_url ex_notice) ''https://b.example'' ex_notice (Some ''x=1'')
     = Inr ex_backup_request"
  by (simp add: ex_defs url_defs)


lemma ex_two_slashes_built:
  "createProxyRequest (req_url ex_two_slashes) d ex_two_slashes None
     = (case parse_base d of
          Inl err \<Rightarrow> Inl err
        | Inr b \<Rightarrow>
            Inr \<lparr>p_url = \<lparr>scheme = scheme b, authority = ''evil.example'', path_query = ''/x''\<rparr>,
                 p_method = ''GET'', p_headers = ex_forwarded_headers, p_body = None,
                 p_redirect = Manual\<rparr>)"
  by (simp add: createProxyRequest_def new_URL_def ex_two_slashes_def ex_headers_def
      ex_forwarded_headers_def parse_authority_def is_slash_def in_authority_def
      hdelete_def same_name_def lower_def ascii_lower_def split: sum.splits)

lemma ex_bases:
  "parse_base ''https://a.example''
     = Inr \<lparr>scheme = ''https'', authority = ''a.example'', path_query = ''/''\<rparr>"
  "parse_base ''https://b.example''
     = Inr \<lparr>scheme = ''https'', authority = ''b.example'', path_query = ''/''\<rparr>"
  by (simp_all add: url_defs)

subsection \<open>The requests a run sends\<close>

text \<open>What a request is made of when \<open>createProxyRequest\<close> returns one.\<close>

lemma createProxyRequest_built:
  assumes "createProxyRequest u d rq bo = Inr pr"
  shows "new_URL (pathname u @ search u) d = Inr (p_url pr)"
    and "p_method pr = req_method rq"
    and "p_headers pr = hset ''x-forwarded-host'' (host u) (hdelete ''host'' (headers rq))"
    and "p_body pr = (if req_method rq \<noteq> ''GET'' \<and> req_method rq \<noteq> ''HEAD''
                      then (case bo of Some buf \<Rightarrow> Some (FromBuffer buf)
                                     | None \<Rightarrow> map_option FromStream (body rq))
                      else None)"
    and "p_redirect pr = Manual"
  using assms by (auto simp: createProxyRequest_def Let_def split: sum.splits)

text \<open>Every fetch of a run sends a request built by \<open>createProxyRequest\<close> from the inbound one.\<close>

lemma fetch_in_trace:
  assumes "Fetch pr t \<in> set (trace (handler e rq))"
  shows "\<exists>d bo. createProxyRequest (req_url rq) d rq bo = Inr pr"
  using assms
  by (auto simp: handler_def probe_def failover_def routed_def Let_def
      split: if_splits sum.splits fetch_result.splits option.splits)





text \<open>
  On the probe path a request with a readable body and a method other than \<open>GET\<close> and
  \<open>HEAD\<close> is only ever sent with the buffered bytes, never with the inbound stream.
\<close>

lemma probe_sends_buffer:
  assumes "pathname (req_url rq) = ''/api/notice''"
    and "body rq = Some (Stream bytes)"
    and "req_method rq \<noteq> ''GET''" and "req_method rq \<noteq> ''HEAD''"
    and "Fetch pr t \<in> set (trace (handler e rq))"
  shows "p_body pr = Some (FromBuffer bytes)"
proof -
  have rb: "readBody rq = Inr (Some bytes)"
    using assms(2) by (simp add: readBody_def arrayBuffer_def)
  have built: "p_body p = Some (FromBuffer bytes)"
    if "createProxyRequest (req_url rq) d rq (Some bytes) = Inr p" for d p
    using createProxyRequest_built(4)[OF that] assms(3,4) by simp
  show ?thesis
    using assms(1,5) built
    by (auto simp: handler_def probe_def failover_def rb Let_def
        split: if_splits sum.splits fetch_result.splits option.splits)
qed

text \<open>
  A write whose promise rejects changes neither the value the handler settles with nor
  its calls.
\<close>

lemma failover_ignores_rejection:
  "result (failover (e\<lparr>kv_set_fails := f\<rparr>) rq db called bb) = result (failover e rq db called bb)
   \<and> trace (failover (e\<lparr>kv_set_fails := f\<rparr>) rq db called bb) = trace (failover e rq db called bb)"
  by (simp add: failover_def fetch_def split: option.splits sum.splits)

lemma rejected_write_invisible:
  "result (handler (e\<lparr>kv_set_fails := f\<rparr>) rq) = result (handler e rq)
   \<and> trace (handler (e\<lparr>kv_set_fails := f\<rparr>) rq) = trace (handler e rq)"
proof -
  have probe: "result (probe (e\<lparr>kv_set_fails := f\<rparr>) rq dm db) = result (probe e rq dm db)
      \<and> trace (probe (e\<lparr>kv_set_fails := f\<rparr>) rq dm db) = trace (probe e rq dm db)" for dm db
    by (simp add: probe_def failover_ignores_rejection fetch_with_timeout_def
        split: sum.splits fetch_result.splits option.splits)
  have routed: "result (routed (e\<lparr>kv_set_fails := f\<rparr>) rq dm db) = result (routed e rq dm db)
      \<and> trace (routed (e\<lparr>kv_set_fails := f\<rparr>) rq dm db) = trace (routed e rq dm db)" for dm db
    by (simp add: routed_def kv_get_def fetch_def Let_def split: sum.splits)
  show ?thesis by (simp add: handler_def probe routed Let_def)
qed

text \<open>
  The decision of the cached route, and what line 31 makes of it. The domain handed to
  \<open>createProxyRequest\<close> is the backup's when the store reads \<open>down\<close> and the primary's
  otherwise, also when the read fails. The request goes to that domain's host when the
  inbound path begins with one slash only.
\<close>

lemma default_path_decision:
  assumes "normalizeDomain (DOMAIN_MAIN e) \<noteq> []"
    and "normalizeDomain (DOMAIN_BACKUP e) \<noteq> []"
    and "pathname (req_url rq) \<noteq> ''/api/notice''"
    and "d = (if \<not> kv_get_fails e \<and> (\<exists>ex. kv_store e ''primary_status'' = Some (''down'', ex))
              then normalizeDomain (DOMAIN_BACKUP e) else normalizeDomain (DOMAIN_MAIN e))"
  shows "(\<forall>p. createProxyRequest (req_url rq) d rq None = Inr p
            \<longrightarrow> trace (handler e rq) = [KvGet ''primary_status'', Fetch p None]
              \<and> result (handler e rq) = settle (origin e p))
       \<and> (\<forall>err. createProxyRequest (req_url rq) d rq None = Inl err
            \<longrightarrow> trace (handler e rq) = [KvGet ''primary_status'']
              \<and> result (handler e rq) = Rejected err)
       \<and> store_after (handler e rq) = kv_store e"
  using assms
  by (auto simp: handler_def routed_def kv_get_def fetch_def Let_def split: sum.splits)

lemma one_slash_keeps_origin:
  assumes "parse_base d = Inr b"
    and "pathname u @ search u = CHR ''/'' # r"
    and "\<forall>c r'. r = c # r' \<longrightarrow> \<not> is_slash c"
    and "createProxyRequest u d rq bo = Inr pr"
  shows "p_url pr = \<lparr>scheme = scheme b, authority = authority b,
                     path_query = pathname u @ search u\<rparr>"
proof -
  have "new_URL (pathname u @ search u) d = Inr (p_url pr)"
    using createProxyRequest_built(1)[OF assms(4)] .
  then have "resolve b (CHR ''/'' # r) = Inr (p_url pr)"
    using assms(1,2) by (simp add: new_URL_def)
  then have "p_url pr = b\<lparr>path_query := CHR ''/'' # r\<rparr>"
    using assms(3) by (cases r) (auto simp: is_slash_def)
  then show ?thesis by (simp add: assms(2))
qed

subsection \<open>The probe path\<close>





text \<open>
  Claim C5 says that a failing store write never changes the response. The code breaks
  it when the write fails by throwing: \<open>POST /api/notice\<close>, the primary answers 200 in
  time, and \<open>kv.set\<close> throws at line 84, inside the \<open>try\<close>. The \<open>catch\<close> block takes
  this for a failed probe, calls \<open>kv.set\<close> again at line 97, which throws again, and
  the handler rejects: the caller loses the primary's 200. With a failed probe the throw
  at line 97 loses the backup's response in the same way. A write that fails by a
  rejected promise leaves the response as it is.
\<close>

theorem write_throw_loses_response:
  "pathname (req_url ex_notice) = ''/api/notice''
   \<and> fetch_with_timeout (ex_env\<lparr>kv_set_throws := Some ''kv client threw''\<rparr>)
        ex_probe_request 10000 = Responded resp_a
   \<and> status resp_a = 200
   \<and> result (handler ex_env ex_notice) = Returned resp_a
   \<and> result (handler (ex_env\<lparr>kv_set_fails := True\<rparr>) ex_notice) = Returned resp_a
   \<and> result (handler (ex_env\<lparr>kv_set_throws := Some ''kv client threw''\<rparr>) ex_notice)
       = Rejected ''kv client threw''
   \<and> trace (handler (ex_env\<lparr>kv_set_throws := Some ''kv client threw''\<rparr>) ex_notice)
       = [Fetch ex_probe_request (Some 10000), KvSet ''primary_status'' ''up'' 600,
          KvSet ''primary_status'' ''down'' 600]
   \<and> result (handler (ex_env\<lparr>origin := answers resp_bad_gateway resp_b,
                                kv_set_throws := Some ''kv client threw''\<rparr>) ex_notice)
       = Rejected ''kv client threw''
   \<and> result (handler (ex_env\<lparr>origin := answers resp_bad_gateway resp_b\<rparr>) ex_notice)
       = Returned resp_b"
proof -
  have rb: "readBody ex_notice = Inr (Some ''x=1'')"
    by (simp add: ex_notice_def readBody_def arrayBuffer_def)
  have p: "pathname (req_url ex_notice) = ''/api/notice''" by (simp add: ex_notice_def)
  have a: "answers x y ex_probe_request = Responded x"
    and b: "answers x y ex_backup_request = Responded y" for x y
    by (simp_all add: answers_def ex_probe_request_def ex_backup_request_def)
  have run: "handler (ex_env\<lparr>origin := answers x y, kv_set_fails := f, kv_set_throws := t\<rparr>) ex_notice
      = probe (ex_env\<lparr>origin := answers x y, kv_set_fails := f, kv_set_throws := t\<rparr>) ex_notice
          ''https://a.example'' ''https://b.example''" for x y f t
    by (simp add: handler_def p ex_main ex_backup Let_def)
  have lat: "latency ex_env = (\<lambda>pr. 120)" and st: "status resp_a = 200" "status resp_b = 200"
    "status resp_bad_gateway = 502"
    by (simp_all add: ex_env_def resp_a_def resp_b_def resp_bad_gateway_def)
  have res: "result (handler (ex_env\<lparr>origin := answers x y, kv_set_fails := f,
                 kv_set_throws := t\<rparr>) ex_notice)
      = (case t of Some err \<Rightarrow> Rejected err | None \<Rightarrow> if ok x then Returned x else Returned y)"
    and tr: "ok x \<Longrightarrow> trace (handler (ex_env\<lparr>origin := answers x y, kv_set_fails := f,
                 kv_set_throws := Some err\<rparr>) ex_notice)
      = [Fetch ex_probe_request (Some 10000), KvSet ''primary_status'' ''up'' 600,
          KvSet ''primary_status'' ''down'' 600]" for x y f t err
    by (simp_all add: run probe_def failover_def rb ex_probe_built ex_backup_built
        fetch_with_timeout_def fetch_def settle_def lat a b split: option.splits)
  have same: "ex_env\<lparr>origin := answers resp_a resp_b, kv_set_fails := f, kv_set_throws := t\<rparr>
      = ex_env\<lparr>kv_set_fails := f, kv_set_throws := t\<rparr>" for f t
    by (simp add: ex_env_def)
  have flags: "ex_env\<lparr>kv_set_fails := False, kv_set_throws := None\<rparr> = ex_env"
    "ex_env\<lparr>kv_set_fails := True, kv_set_throws := None\<rparr> = ex_env\<lparr>kv_set_fails := True\<rparr>"
    "ex_env\<lparr>kv_set_fails := False, kv_set_throws := Some t\<rparr> = ex_env\<lparr>kv_set_throws := Some t\<rparr>"
    "ex_env\<lparr>origin := o', kv_set_fails := False, kv_set_throws := Some t\<rparr>
       = ex_env\<lparr>origin := o', kv_set_throws := Some t\<rparr>"
    "ex_env\<lparr>origin := o', kv_set_fails := False, kv_set_throws := None\<rparr> = ex_env\<lparr>origin := o'\<rparr>"
    for t o'
    by (simp_all add: ex_env_def)
  have oka: "ok resp_a" and okg: "\<not> ok resp_bad_gateway" by (simp_all add: ok_def st)
  have 1: "result (handler ex_env ex_notice) = Returned resp_a"
    using res[where x=resp_a and y=resp_b and f=False and t=None] oka by (simp add: same flags)
  have 2: "result (handler (ex_env\<lparr>kv_set_fails := True\<rparr>) ex_notice) = Returned resp_a"
    using res[where x=resp_a and y=resp_b and f=True and t=None] oka by (simp add: same flags)
  have 3: "result (handler (ex_env\<lparr>kv_set_throws := Some ''kv client threw''\<rparr>) ex_notice)
       = Rejected ''kv client threw''"
    using res[where x=resp_a and y=resp_b and f=False and t="Some ''kv client threw''"] by (simp add: same flags)
  have 4: "trace (handler (ex_env\<lparr>kv_set_throws := Some ''kv client threw''\<rparr>) ex_notice)
       = [Fetch ex_probe_request (Some 10000), KvSet ''primary_status'' ''up'' 600,
          KvSet ''primary_status'' ''down'' 600]"
    using tr[OF oka, where y=resp_b and f=False and err="''kv client threw''"] by (simp add: same flags)
  have 5: "result (handler (ex_env\<lparr>origin := answers resp_bad_gateway resp_b,
                                kv_set_throws := Some ''kv client threw''\<rparr>) ex_notice)
       = Rejected ''kv client threw''"
    using res[where x=resp_bad_gateway and y=resp_b and f=False and t="Some ''kv client threw''"] by (simp add: flags)
  have 6: "result (handler (ex_env\<lparr>origin := answers resp_bad_gateway resp_b\<rparr>) ex_notice)
       = Returned resp_b"
    using res[where x=resp_bad_gateway and y=resp_b and f=False and t=None] okg by (simp add: flags)
  have 0: "fetch_with_timeout (ex_env\<lparr>kv_set_throws := Some ''kv client threw''\<rparr>)
        ex_probe_request 10000 = Responded resp_a"
    by (simp add: fetch_with_timeout_def ex_env_def a)
  show ?thesis using p 0 st(1) 1 2 3 4 5 6 by simp
qed

subsection \<open>Every other path\<close>

text \<open>
  Claim C3 says that a request to another path goes to the primary origin when the
  health record is absent or \<open>up\<close> and to the backup origin when it is \<open>down\<close>. The
  code breaks it for a path that begins with two slashes: for
  \<open>GET https://proxy.example//evil.example/x\<close> line 31 resolves \<open>//evil.example/x\<close>
  against the chosen origin, which keeps only the origin's scheme, and the one fetch of
  the run goes to \<open>https://evil.example/x\<close>, whatever the record holds. The caller
  receives that host's answer.
\<close>

theorem two_slash_path_leaves_origins:
  "pathname (req_url ex_two_slashes) \<noteq> ''/api/notice''
   \<and> req_method ex_two_slashes = ''GET''
   \<and> \<not> kv_get_fails ex_env
   \<and> kv_store ex_env ''primary_status'' = None
   \<and> map_sum id href (parse_base (normalizeDomain (DOMAIN_MAIN ex_env)))
       = Inr ''https://a.example/''
   \<and> map_sum id href (parse_base (normalizeDomain (DOMAIN_BACKUP ex_env)))
       = Inr ''https://b.example/''
   \<and> fetched (trace (handler ex_env ex_two_slashes)) = [''https://evil.example/x'']
   \<and> result (handler ex_env ex_two_slashes) = Returned resp_elsewhere
   \<and> fetched (trace (handler (ex_env\<lparr>kv_store := [''primary_status'' \<mapsto> (''up'', 600)]\<rparr>)
        ex_two_slashes)) = [''https://evil.example/x'']
   \<and> fetched (trace (handler (ex_env\<lparr>kv_store := [''primary_status'' \<mapsto> (''down'', 600)]\<rparr>)
        ex_two_slashes)) = [''https://evil.example/x'']"
proof -
  have p: "pathname (req_url ex_two_slashes) \<noteq> ''/api/notice''"
    and m: "req_method ex_two_slashes = ''GET''"
    by (simp_all add: ex_two_slashes_def)
  have bases: "map_sum id href (parse_base (normalizeDomain (DOMAIN_MAIN ex_env)))
       = Inr ''https://a.example/''"
    "map_sum id href (parse_base (normalizeDomain (DOMAIN_BACKUP ex_env)))
       = Inr ''https://b.example/''"
    by (simp_all add: ex_main ex_backup ex_bases href_def)
  have store: "\<not> kv_get_fails ex_env" "kv_store ex_env ''primary_status'' = None"
    by (simp_all add: ex_env_def)
  have run: "fetched (trace (handler (ex_env\<lparr>kv_store := s\<rparr>) ex_two_slashes))
        = [''https://evil.example/x'']
      \<and> result (handler (ex_env\<lparr>kv_store := s\<rparr>) ex_two_slashes) = Returned resp_elsewhere"
    for s
    by (simp add: handler_def routed_def p ex_main ex_backup kv_get_def fetch_def settle_def
        ex_two_slashes_built ex_bases href_def Let_def)
      (simp add: ex_env_def answers_def)
  have plain: "ex_env\<lparr>kv_store := Map.empty\<rparr> = ex_env" by (simp add: ex_env_def)
  show ?thesis
    using p m bases store run[of Map.empty] run[of "[''primary_status'' \<mapsto> (''up'', 600)]"]
      run[of "[''primary_status'' \<mapsto> (''down'', 600)]"]
    by (simp add: plain)
qed

text \<open>
  Claim C4 says that a request to another path goes to the primary origin when the store
  read fails. The handler does choose the primary's domain then, but for the same path
  that begins with two slashes the request it builds from that domain, and fetches, goes
  to \<open>https://evil.example/x\<close>.
\<close>

theorem two_slash_path_fail_open:
  "pathname (req_url ex_two_slashes) \<noteq> ''/api/notice''
   \<and> kv_get (ex_env\<lparr>kv_get_fails := True\<rparr>) ''primary_status'' = Inl ''KV read failed''
   \<and> map_sum id href (parse_base (normalizeDomain (DOMAIN_MAIN (ex_env\<lparr>kv_get_fails := True\<rparr>))))
       = Inr ''https://a.example/''
   \<and> trace (handler (ex_env\<lparr>kv_get_fails := True\<rparr>) ex_two_slashes)
       = [KvGet ''primary_status'',
          Fetch \<lparr>p_url = \<lparr>scheme = ''https'', authority = ''evil.example'',
                           path_query = ''/x''\<rparr>,
                 p_method = ''GET'', p_headers = ex_forwarded_headers, p_body = None,
                 p_redirect = Manual\<rparr> None]
   \<and> fetched (trace (handler (ex_env\<lparr>kv_get_fails := True\<rparr>) ex_two_slashes))
       = [''https://evil.example/x'']
   \<and> result (handler (ex_env\<lparr>kv_get_fails := True\<rparr>) ex_two_slashes) = Returned resp_elsewhere"
proof -
  have p: "pathname (req_url ex_two_slashes) \<noteq> ''/api/notice''"
    by (simp add: ex_two_slashes_def)
  have base: "map_sum id href
      (parse_base (normalizeDomain (DOMAIN_MAIN (ex_env\<lparr>kv_get_fails := True\<rparr>))))
       = Inr ''https://a.example/''"
    by (simp add: ex_main ex_bases href_def)
  have run: "trace (handler (ex_env\<lparr>kv_get_fails := True\<rparr>) ex_two_slashes)
       = [KvGet ''primary_status'',
          Fetch \<lparr>p_url = \<lparr>scheme = ''https'', authority = ''evil.example'',
                           path_query = ''/x''\<rparr>,
                 p_method = ''GET'', p_headers = ex_forwarded_headers, p_body = None,
                 p_redirect = Manual\<rparr> None]
      \<and> result (handler (ex_env\<lparr>kv_get_fails := True\<rparr>) ex_two_slashes)
          = Returned resp_elsewhere"
    by (simp add: handler_def routed_def p ex_main ex_backup kv_get_def fetch_def settle_def
        ex_two_slashes_built ex_bases Let_def)
      (simp add: ex_env_def answers_def)
  show ?thesis using p base run by (simp add: kv_get_def href_def)
qed

subsection \<open>The request translator\<close>

text \<open>
  Claim C6. The headers of every request that \<open>createProxyRequest\<close> builds, for any
  target and body override, are the inbound headers after \<open>delete('host')\<close> and
  \<open>set('x-forwarded-host', url.host)\<close>: \<open>Host\<close> reads as absent in any letter case,
  \<open>X-Forwarded-Host\<close> reads as the host of the inbound URL, every other name reads as
  it did inbound. Every request that a run of the handler fetches has these headers.
\<close>

theorem outbound_headers:
  "(\<forall>pr. createProxyRequest u d rq bo = Inr pr
      \<longrightarrow> p_headers pr = hset ''x-forwarded-host'' (host u) (hdelete ''host'' (headers rq))
        \<and> hget ''Host'' (p_headers pr) = None
        \<and> hget ''X-Forwarded-Host'' (p_headers pr) = Some (host u)
        \<and> (\<forall>n. \<not> same_name n ''Host'' \<and> \<not> same_name n ''X-Forwarded-Host''
              \<longrightarrow> hget n (p_headers pr) = hget n (headers rq)))
   \<and> (\<forall>pr t. Fetch pr t \<in> set (trace (handler e rq))
          \<longrightarrow> p_headers pr
              = hset ''x-forwarded-host'' (host (req_url rq)) (hdelete ''host'' (headers rq)))"
proof -
  let ?out = "hset ''x-forwarded-host'' (host u) (hdelete ''host'' (headers rq))"
  have differ: "\<not> same_name ''Host'' ''x-forwarded-host''"
    by (simp add: same_name_def lower_literals)
  have no_host: "hvalues ''Host'' ?out = []"
    using differ by (simp add: hvalues_hset hvalues_hdelete same_name_def lower_literals)
  have xfh: "hvalues ''X-Forwarded-Host'' ?out = [host u]"
    by (simp add: hvalues_hset same_name_def lower_literals)
  have others: "hvalues n ?out = hvalues n (headers rq)"
    if "\<not> same_name n ''Host''" "\<not> same_name n ''X-Forwarded-Host''" for n
    using that by (simp add: hvalues_hset hvalues_hdelete same_name_def lower_literals)
  have sent: "p_headers pr
      = hset ''x-forwarded-host'' (host (req_url rq)) (hdelete ''host'' (headers rq))"
    if "Fetch pr t \<in> set (trace (handler e rq))" for pr t
    using fetch_in_trace[OF that] createProxyRequest_built(3) by blast
  show ?thesis
    using no_host xfh others sent createProxyRequest_built(3)[of u d rq bo]
    by (simp add: hget_def)
qed

theorem outbound_headers_witness:
  "hget ''host'' (headers ex_notice) = Some ''proxy.example''
   \<and> createProxyRequest (req_url ex_notice) ''https://a.example'' ex_notice (Some ''x=1'')
       = Inr ex_probe_request
   \<and> p_headers ex_probe_request
       = [(''accept'', ''*/*''), (''x-forwarded-host'', ''proxy.example'')]
   \<and> hget ''host'' (p_headers ex_probe_request) = None
   \<and> hget ''accept'' (p_headers ex_probe_request) = Some ''*/*''"
proof -
  have inbound: "hget ''host'' (headers ex_notice) = Some ''proxy.example''"
    and accept: "hget ''accept'' (headers ex_notice) = Some ''*/*''"
    by (simp_all add: ex_notice_def ex_headers_def hget_def hvalues_def same_name_def
        lower_def ascii_lower_def)
  have names: "\<not> same_name ''accept'' ''Host'' \<and> \<not> same_name ''accept'' ''X-Forwarded-Host''"
    and host: "same_name ''host'' ''Host''"
    by (simp_all add: same_name_def lower_def ascii_lower_def)
  have computed: "hset ''x-forwarded-host'' (host (req_url ex_notice))
        (hdelete ''host'' (headers ex_notice))
      = [(''accept'', ''*/*''), (''x-forwarded-host'', ''proxy.example'')]"
    by (simp add: ex_notice_def ex_headers_def hdelete_def same_name_def lower_def ascii_lower_def)
  from outbound_headers[of "req_url ex_notice" "''https://a.example''" ex_notice "Some ''x=1''"
      ex_env] ex_probe_built
  have "p_headers ex_probe_request = hset ''x-forwarded-host'' (host (req_url ex_notice))
            (hdelete ''host'' (headers ex_notice))"
    and "hget ''Host'' (p_headers ex_probe_request) = None"
    and "hget ''accept'' (p_headers ex_probe_request) = hget ''accept'' (headers ex_notice)"
    using names by blast+
  then show ?thesis
    using inbound accept computed host ex_probe_built
    by (simp add: hget_def hvalues_def same_name_def)
qed

text \<open>
  Claim C7. For the methods \<open>GET\<close> and \<open>HEAD\<close> every request that
  \<open>createProxyRequest\<close> builds has no body, whatever body the inbound request and the
  override carry, and so has every request a run of the handler fetches. For any other
  method the body is the override buffer when one is given, and otherwise the inbound
  body stream (or none when the inbound request has none).
\<close>

theorem outbound_body:
  "(req_method rq = ''GET'' \<or> req_method rq = ''HEAD''
      \<longrightarrow> (\<forall>pr. createProxyRequest u d rq bo = Inr pr \<longrightarrow> p_body pr = None)
        \<and> (\<forall>pr t. Fetch pr t \<in> set (trace (handler e rq)) \<longrightarrow> p_body pr = None))
   \<and> (req_method rq \<noteq> ''GET'' \<and> req_method rq \<noteq> ''HEAD''
      \<longrightarrow> (\<forall>pr buf. createProxyRequest u d rq bo = Inr pr \<and> bo = Some buf
               \<longrightarrow> p_body pr = Some (FromBuffer buf))
        \<and> (\<forall>pr. createProxyRequest u d rq bo = Inr pr \<and> bo = None
               \<longrightarrow> p_body pr = map_option FromStream (body rq)))"
proof -
  have sent: "p_body pr = None"
    if "req_method rq = ''GET'' \<or> req_method rq = ''HEAD''"
      and "Fetch pr t \<in> set (trace (handler e rq))" for pr t
    using fetch_in_trace[OF that(2)] that(1) createProxyRequest_built(4) by fastforce
  show ?thesis
    using sent createProxyRequest_built(4)[of u d rq bo] by auto
qed

theorem outbound_body_witness:
  "req_method (ex_widgets\<lparr>body := Some (Stream ''ignored'')\<rparr>) = ''GET''
   \<and> map_sum id p_body (createProxyRequest (req_url ex_widgets) ''https://a.example''
        (ex_widgets\<lparr>body := Some (Stream ''ignored'')\<rparr>) (Some ''override'')) = Inr None
   \<and> map_sum id p_body
        (createProxyRequest (req_url ex_notice) ''https://a.example'' ex_notice (Some []))
       = Inr (Some (FromBuffer []))
   \<and> map_sum id p_body
        (createProxyRequest (req_url ex_notice) ''https://a.example'' ex_notice None)
       = Inr (Some (FromStream (Stream ''x=1'')))"
proof -
  let ?get = "ex_widgets\<lparr>body := Some (Stream ''ignored'')\<rparr>"
  have g: "req_method ?get = ''GET''" by (simp add: ex_widgets_def)
  have p: "req_method ex_notice \<noteq> ''GET'' \<and> req_method ex_notice \<noteq> ''HEAD''"
    and b: "body ex_notice = Some (Stream ''x=1'')"
    by (simp_all add: ex_notice_def)
  obtain p1 where b1: "createProxyRequest (req_url ex_widgets) ''https://a.example'' ?get
        (Some ''override'') = Inr p1"
    by (simp add: createProxyRequest_def ex_widgets_def url_defs)
  obtain p2 where b2: "createProxyRequest (req_url ex_notice) ''https://a.example'' ex_notice
        (Some []) = Inr p2"
    by (simp add: createProxyRequest_def ex_notice_def url_defs)
  obtain p3 where b3: "createProxyRequest (req_url ex_notice) ''https://a.example'' ex_notice
        None = Inr p3"
    by (simp add: createProxyRequest_def ex_notice_def url_defs)
  have 1: "p_body p1 = None"
    using outbound_body[of ?get "req_url ex_widgets" "''https://a.example''" "Some ''override''"
        ex_env] g b1 by blast
  have 2: "p_body p2 = Some (FromBuffer [])"
    using outbound_body[of ex_notice "req_url ex_notice" "''https://a.example''" "Some []" ex_env]
      p b2 by blast
  have 3: "p_body p3 = Some (FromStream (Stream ''x=1''))"
    using outbound_body[of ex_notice "req_url ex_notice" "''https://a.example''" None ex_env]
      p b b3 by simp
  show ?thesis using g 1 2 3 by (simp add: b1 b2 b3)
qed




subsection \<open>Domain configuration\<close>

text \<open>
  Claim C9. When \<open>normalizeDomain\<close> gives the empty string for either origin, the run
  is the fixed response with status 500 and the text naming the missing configuration,
  with no call to the outside at all: no fetch, no store read, no store write.
  \<open>normalizeDomain\<close> removes exactly one trailing slash.
\<close>

theorem missing_configuration:
  assumes "normalizeDomain (DOMAIN_MAIN e) = [] \<or> normalizeDomain (DOMAIN_BACKUP e) = []"
  shows "handler e rq = \<lparr>result = Returned config_error, trace = [], store_after = kv_store e\<rparr>
       \<and> status config_error = 500
       \<and> resp_body config_error = ''Configuration Error: Missing DOMAIN_MAIN or DOMAIN_BACKUP''
       \<and> (\<forall>d. normalizeDomain (Some (d @ ''/'')) = d)"
  using assms by (auto simp: handler_def config_error_def text_response_def normalizeDomain_def)

theorem missing_configuration_witness:
  "normalizeDomain (DOMAIN_BACKUP (ex_env\<lparr>DOMAIN_BACKUP := Some []\<rparr>)) = []
   \<and> result (handler (ex_env\<lparr>DOMAIN_BACKUP := Some []\<rparr>) ex_notice) = Returned config_error
   \<and> trace (handler (ex_env\<lparr>DOMAIN_BACKUP := Some []\<rparr>) ex_notice) = []
   \<and> result (handler (ex_env\<lparr>DOMAIN_MAIN := None\<rparr>) ex_widgets) = Returned config_error
   \<and> normalizeDomain (Some ''https://a.example//'') = ''https://a.example/''"
proof -
  have b: "normalizeDomain (DOMAIN_BACKUP (ex_env\<lparr>DOMAIN_BACKUP := Some []\<rparr>)) = []"
    and m: "normalizeDomain (DOMAIN_MAIN (ex_env\<lparr>DOMAIN_MAIN := None\<rparr>)) = []"
    by (simp_all add: normalizeDomain_def)
  from missing_configuration[of "ex_env\<lparr>DOMAIN_BACKUP := Some []\<rparr>" ex_notice]
    missing_configuration[of "ex_env\<lparr>DOMAIN_MAIN := None\<rparr>" ex_widgets] b m
  have "handler (ex_env\<lparr>DOMAIN_BACKUP := Some []\<rparr>) ex_notice
      = \<lparr>result = Returned config_error, trace = [],
         store_after = kv_store (ex_env\<lparr>DOMAIN_BACKUP := Some []\<rparr>)\<rparr>"
    and "handler (ex_env\<lparr>DOMAIN_MAIN := None\<rparr>) ex_widgets
      = \<lparr>result = Returned config_error, trace = [],
         store_after = kv_store (ex_env\<lparr>DOMAIN_MAIN := None\<rparr>)\<rparr>"
    and "normalizeDomain (Some (''https://a.example/'' @ ''/'')) = ''https://a.example/''"
    by blast+
  then show ?thesis using b by simp
qed

text \<open>
  Claim C10. An origin configured as the single character \<open>/\<close> normalizes to the
  empty string, as an absent one does, and the whole run of the handler is then the same
  as with the value absent: the configuration error response of status 500.
\<close>

theorem slash_only_origin:
  "normalizeDomain (Some ''/'') = normalizeDomain None
   \<and> handler (e\<lparr>DOMAIN_MAIN := Some ''/''\<rparr>) rq = handler (e\<lparr>DOMAIN_MAIN := None\<rparr>) rq
   \<and> handler (e\<lparr>DOMAIN_BACKUP := Some ''/''\<rparr>) rq = handler (e\<lparr>DOMAIN_BACKUP := None\<rparr>) rq
   \<and> result (handler (e\<lparr>DOMAIN_MAIN := Some ''/''\<rparr>) rq) = Returned config_error
   \<and> result (handler (e\<lparr>DOMAIN_BACKUP := Some ''/''\<rparr>) rq) = Returned config_error
   \<and> status config_error = 500"
  by (simp add: handler_def normalizeDomain_def config_error_def text_response_def)

theorem slash_only_origin_witness:
  "handler (ex_env\<lparr>DOMAIN_MAIN := Some ''/''\<rparr>) ex_widgets
     = \<lparr>result = Returned config_error, trace = [], store_after = Map.empty\<rparr>
   \<and> handler (ex_env\<lparr>DOMAIN_MAIN := None\<rparr>) ex_widgets
     = \<lparr>result = Returned config_error, trace = [], store_after = Map.empty\<rparr>"
proof -
  have absent: "handler (ex_env\<lparr>DOMAIN_MAIN := None\<rparr>) ex_widgets
     = \<lparr>result = Returned config_error, trace = [], store_after = Map.empty\<rparr>"
    by (simp add: handler_def normalizeDomain_def ex_env_def)
  show ?thesis
    using slash_only_origin[of ex_env ex_widgets] absent by simp
qed

end
